theory Spec2Isabelle
  imports Main "HOL-Library.Monad_Syntax" "HOL-Library.Sublist"
begin

section \<open>Python strings\<close>

text \<open>
  A Python \<open>str\<close> is a sequence of Unicode code points; a code point is a natural number.
  The character tables below are those of Unicode 14.0, the version of CPython 3.11.
\<close>

type_synonym pystr = "nat list"

text \<open>\<open>str.isspace\<close> on one character: the characters \<open>str.strip()\<close> removes.\<close>

definition py_isspace :: "nat \<Rightarrow> bool" where
  "py_isspace c \<longleftrightarrow>
     (9 \<le> c \<and> c \<le> 13) \<or> (28 \<le> c \<and> c \<le> 32) \<or> c = 133 \<or> c = 160 \<or> c = 5760 \<or>
     (8192 \<le> c \<and> c \<le> 8202) \<or> c = 8232 \<or> c = 8233 \<or> c = 8239 \<or> c = 8287 \<or> c = 12288"

definition py_strip :: "pystr \<Rightarrow> pystr" where
  "py_strip s = rev (dropWhile py_isspace (rev (dropWhile py_isspace s)))"

text \<open>
  The decimal digits (general category Nd) come in blocks of ten consecutive code points,
  the values 0 to 9 in order; \<open>nd_blocks\<close> lists the first code point of each block.
\<close>

definition nd_blocks :: "nat list" where
  "nd_blocks =
    [48, 1632, 1776, 1984, 2406, 2534, 2662, 2790, 2918, 3046, 3174, 3302, 3430, 3558, 3664,
     3792, 3872, 4160, 4240, 6112, 6160, 6470, 6608, 6784, 6800, 6992, 7088, 7232, 7248,
     42528, 43216, 43264, 43472, 43504, 43600, 44016, 65296, 66720, 68912, 69734, 69872,
     69942, 70096, 70384, 70736, 70864, 71248, 71360, 71472, 71904, 72016, 72784, 73040,
     73120, 92768, 92864, 93008, 120782, 120792, 120802, 120812, 120822, 123200, 123632,
     125264, 130032]"

text \<open>The decimal value of a character (\<open>Py_UNICODE_TODECIMAL\<close>), None when it has none.\<close>

definition decimal_of :: "nat \<Rightarrow> nat option" where
  "decimal_of c =
     (case filter (\<lambda>b. b \<le> c \<and> c < b + 10) nd_blocks of
        [] \<Rightarrow> None
      | b # _ \<Rightarrow> Some (c - b))"

definition py_isdecimal :: "nat \<Rightarrow> bool" where
  "py_isdecimal c \<longleftrightarrow> decimal_of c \<noteq> None"

text \<open>
  The characters that are digits without being decimal digits (superscripts, circled
  digits and the like), as inclusive ranges.
\<close>

definition digit_only_ranges :: "(nat \<times> nat) list" where
  "digit_only_ranges =
    [(178, 179), (185, 185), (4969, 4977), (6618, 6618), (8304, 8304), (8308, 8313),
     (8320, 8329), (9312, 9320), (9332, 9340), (9352, 9360), (9450, 9450), (9461, 9469),
     (9471, 9471), (10102, 10110), (10112, 10120), (10122, 10130), (68160, 68163),
     (69216, 69224), (69714, 69722), (127232, 127242)]"

definition digit_char :: "nat \<Rightarrow> bool" where
  "digit_char c \<longleftrightarrow> py_isdecimal c \<or> list_ex (\<lambda>(lo, hi). lo \<le> c \<and> c \<le> hi) digit_only_ranges"

text \<open>\<open>str.isdigit()\<close>: at least one character, and every character a digit.\<close>

definition py_isdigit :: "pystr \<Rightarrow> bool" where
  "py_isdigit s \<longleftrightarrow> s \<noteq> [] \<and> list_all digit_char s"

subsection \<open>\<open>int(str)\<close>\<close>

text \<open>
  \<open>int\<close> of a string, base 10: surrounding whitespace, an optional sign, then decimal
  digits with single underscores allowed between two digits. The whitespace \<open>int\<close> skips
  is the ASCII whitespace of C and every non-ASCII \<open>isspace\<close> character (the separators
  U+001C to U+001F are not skipped).
\<close>

definition int_space :: "nat \<Rightarrow> bool" where
  "int_space c \<longleftrightarrow> (9 \<le> c \<and> c \<le> 13) \<or> c = 32 \<or> (128 \<le> c \<and> py_isspace c)"

text \<open>The digit values of \<open>D (_? D)*\<close>, None when the text is not of that form.\<close>

fun body_digits :: "pystr \<Rightarrow> nat list option" where
  "body_digits [] = None"
| "body_digits (c # cs) =
     (case decimal_of c of
        None \<Rightarrow> None
      | Some d \<Rightarrow>
          (case cs of
             [] \<Rightarrow> Some [d]
           | c' # cs' \<Rightarrow>
               if c' = 95 then map_option (Cons d) (body_digits cs')
               else map_option (Cons d) (body_digits cs)))"

definition digits_value :: "nat list \<Rightarrow> nat" where
  "digits_value ds = foldl (\<lambda>a d. 10 * a + d) 0 ds"

text \<open>
  \<open>maxd\<close> is the interpreter's limit on the number of digits of an integer literal
  (\<open>sys.get_int_max_str_digits()\<close>: 4300 by default, 0 for no limit): a string of more than
  640 digits and more than \<open>maxd\<close> digits raises ValueError. None is the ValueError.
\<close>

definition py_int :: "nat \<Rightarrow> pystr \<Rightarrow> int option" where
  "py_int maxd s =
     (let t = dropWhile int_space s;
          neg = (t \<noteq> [] \<and> hd t = 45);
          u = (if t \<noteq> [] \<and> (hd t = 45 \<or> hd t = 43) then tl t else t);
          body = rev (dropWhile int_space (rev u))
      in case body_digits body of
           None \<Rightarrow> None
         | Some ds \<Rightarrow>
             if 640 < length ds \<and> 0 < maxd \<and> maxd < length ds then None
             else Some (if neg then - int (digits_value ds) else int (digits_value ds)))"

subsection \<open>The pattern \<open>^-?\d+$\<close>\<close>

text \<open>
  \<open>re.match(r"^-?\d+$", s)\<close>: \<open>\d\<close> is a decimal digit, and \<open>$\<close> matches at the end of
  the string or before a newline that ends it.
\<close>

definition re_plus_minus :: "pystr \<Rightarrow> bool" where
  "re_plus_minus s =
     (let t = (if s \<noteq> [] \<and> last s = 10 then butlast s else s);
          u = (if t \<noteq> [] \<and> hd t = 45 then tl t else t)
      in u \<noteq> [] \<and> list_all py_isdecimal u)"

section \<open>Player records\<close>

record PlayerStats =
  name :: pystr
  team :: pystr
  team_abbr :: pystr
  position :: pystr
  points :: int
  goals :: int
  assists :: int
  games :: int
  plus_minus :: int
  penalty :: int

text \<open>\<open>cols[i]\<close>: None is the IndexError.\<close>

definition py_index :: "'a list \<Rightarrow> nat \<Rightarrow> 'a option" where
  "py_index xs i = (if i < length xs then Some (xs ! i) else None)"

text \<open>\<open>int(c) if c.isdigit() else 0\<close>; None is the ValueError of \<open>int\<close>.\<close>

definition count_field :: "nat \<Rightarrow> pystr \<Rightarrow> int option" where
  "count_field maxd c = (if py_isdigit c then py_int maxd c else Some 0)"

text \<open>\<open>int(c) if re.match(r"^-?\d+$", c) else 0\<close>.\<close>

definition plus_minus_field :: "nat \<Rightarrow> pystr \<Rightarrow> int option" where
  "plus_minus_field maxd c = (if re_plus_minus c then py_int maxd c else Some 0)"

text \<open>
  The body of the \<open>try\<close> in the row loop of \<open>parse_html\<close>: the record of one row, None
  when an exception is raised (the handler logs it and goes on to the next row).
\<close>

definition make_player :: "nat \<Rightarrow> pystr list \<Rightarrow> PlayerStats option" where
  "make_player maxd cols =
     do {
       nm \<leftarrow> py_index cols 1;
       tm \<leftarrow> py_index cols 2;
       ab \<leftarrow> py_index cols 3;
       pos \<leftarrow> py_index cols 4;
       c5 \<leftarrow> py_index cols 5;
       pts \<leftarrow> count_field maxd c5;
       c6 \<leftarrow> py_index cols 6;
       gls \<leftarrow> count_field maxd c6;
       c7 \<leftarrow> py_index cols 7;
       ast \<leftarrow> count_field maxd c7;
       c8 \<leftarrow> py_index cols 8;
       gms \<leftarrow> count_field maxd c8;
       c9 \<leftarrow> py_index cols 9;
       pm \<leftarrow> plus_minus_field maxd c9;
       c10 \<leftarrow> py_index cols 10;
       pen \<leftarrow> count_field maxd c10;
       Some \<lparr>name = nm, team = tm, team_abbr = ab, position = pos, points = pts,
             goals = gls, assists = ast, games = gms, plus_minus = pm, penalty = pen\<rparr>
     }"

text \<open>One iteration of the row loop on the cell texts of a row: None when the row is skipped.\<close>

definition parse_row :: "nat \<Rightarrow> pystr list \<Rightarrow> PlayerStats option" where
  "parse_row maxd cols = (if cols = [] \<or> length cols < 12 then None else make_player maxd cols)"

section \<open>The page as BeautifulSoup sees it\<close>

text \<open>
  The markup is represented by the tree \<open>BeautifulSoup(html, "html.parser")\<close> builds from
  it: text nodes and tags with their children, tag names in lower case. A text node
  stands for a string that \<open>get_text()\<close> collects.
\<close>

datatype node = Text pystr | Tag string "node list"

text \<open>The descendants of a node in document order, as \<open>find_all\<close> visits them.\<close>

fun descendants :: "node \<Rightarrow> node list" where
  "descendants (Text s) = []"
| "descendants (Tag n cs) = concat (map (\<lambda>c. c # descendants c) cs)"

definition is_tag :: "string list \<Rightarrow> node \<Rightarrow> bool" where
  "is_tag names nd = (case nd of Text s \<Rightarrow> False | Tag n cs \<Rightarrow> n \<in> set names)"

definition find_all :: "string list \<Rightarrow> node \<Rightarrow> node list" where
  "find_all names nd = filter (is_tag names) (descendants nd)"

fun get_text :: "node \<Rightarrow> pystr" where
  "get_text (Text s) = s"
| "get_text (Tag n cs) = concat (map get_text cs)"

text \<open>\<open>[c.get_text().strip() for c in nd.find_all(["td", "th"])]\<close>\<close>

definition cell_texts :: "node \<Rightarrow> pystr list" where
  "cell_texts nd = map (\<lambda>c. py_strip (get_text c)) (find_all [''td'', ''th''] nd)"

text \<open>The column label of the player names, the Cyrillic word of the source (U+0418 U+0433 U+0440 U+043E U+043A).\<close>

definition player_label :: pystr where
  "player_label = [1048, 1075, 1088, 1086, 1082]"

section \<open>\<open>parse_html\<close>\<close>

datatype error =
    InvalidSeasonFormat  \<comment> \<open>the ValueError raised by \<open>_season_to_year\<close> on a bad second part\<close>
  | InvalidLiteral       \<comment> \<open>the ValueError of \<open>int(season)\<close>\<close>
  | TableNotFound        \<comment> \<open>the ValueError raised by \<open>parse_html\<close>\<close>
  | FetchError           \<comment> \<open>any exception of \<open>requests.get\<close> or \<open>raise_for_status\<close>\<close>


text \<open>The loop over the candidate tables: the first one whose cell texts hold the label.\<close>

fun find_table :: "node list \<Rightarrow> node option" where
  "find_table [] = None"
| "find_table (candidate # rest) =
     (let cells = cell_texts candidate
      in if cells \<noteq> [] \<and> player_label \<in> set cells then Some candidate
         else find_table rest)"

text \<open>The loop over the rows, \<open>players\<close> the list built so far.\<close>

fun parse_rows :: "nat \<Rightarrow> node list \<Rightarrow> PlayerStats list \<Rightarrow> PlayerStats list" where
  "parse_rows maxd [] players = players"
| "parse_rows maxd (tr # trs) players =
     (case parse_row maxd (cell_texts tr) of
        None \<Rightarrow> parse_rows maxd trs players
      | Some p \<Rightarrow> parse_rows maxd trs (players @ [p]))"

definition parse_html :: "nat \<Rightarrow> node \<Rightarrow> error + PlayerStats list" where
  "parse_html maxd soup =
     (case find_table (find_all [''table''] soup) of
        None \<Rightarrow> Inl TableNotFound
      | Some table \<Rightarrow> Inr (parse_rows maxd (drop 1 (find_all [''tr''] table)) []))"

section \<open>Season and URL\<close>

text \<open>\<open>s.split(sep)\<close> for a separator of one character.\<close>

fun py_split :: "nat \<Rightarrow> pystr \<Rightarrow> pystr list" where
  "py_split sep [] = [] # []"
| "py_split sep (c # cs) =
     (if c = sep then [] # py_split sep cs
      else (case py_split sep cs of
              [] \<Rightarrow> [c] # []
            | p # ps \<Rightarrow> (c # p) # ps))"

definition season_to_year :: "nat \<Rightarrow> pystr \<Rightarrow> error + int" where
  "season_to_year maxd season =
     (if 47 \<in> set season then
        (case py_index (py_split 47 season) 1 of
           None \<Rightarrow> Inl InvalidSeasonFormat
         | Some part \<Rightarrow>
             (case py_int maxd part of
                None \<Rightarrow> Inl InvalidSeasonFormat
              | Some y \<Rightarrow> Inr y))
      else
        (case py_int maxd season of
           None \<Rightarrow> Inl InvalidLiteral
         | Some y \<Rightarrow> Inr y))"

definition ascii :: "string \<Rightarrow> pystr" where
  "ascii s = map of_char s"

fun nat_digits :: "nat \<Rightarrow> pystr" where
  "nat_digits n = (if n < 10 then [48 + n] else nat_digits (n div 10) @ [48 + n mod 10])"

declare nat_digits.simps [simp del]

text \<open>\<open>str(i)\<close> of an integer, as the f-string formats the year.\<close>

definition py_str_int :: "int \<Rightarrow> pystr" where
  "py_str_int i = (if i < 0 then 45 # nat_digits (nat (- i)) else nat_digits (nat i))"

definition build_url :: "nat \<Rightarrow> pystr \<Rightarrow> bool \<Rightarrow> error + pystr" where
  "build_url maxd season playoff =
     (case season_to_year maxd season of
        Inl e \<Rightarrow> Inl e
      | Inr year \<Rightarrow>
          Inr (ascii ''https://allhockey.ru/stat/khl/'' @ py_str_int year @ [47] @
               nat_digits (if playoff then 315 else 312) @ ascii ''/player''))"

section \<open>The season cache\<close>

text \<open>
  \<open>get_players\<close> is wrapped in \<open>lru_cache(maxsize=10)\<close>: the cache maps the arguments of a
  call, the season string and the play-off flag as they are passed, to the list returned.
  The entries are kept most recently used first: a hit moves its entry to the front, and
  a new entry put into a full cache evicts the last one. A call that raises stores
  nothing. The state also holds the log of the URLs requested from the network.
\<close>

type_synonym season_key = "pystr \<times> bool"

record app_state =
  cache :: "(season_key \<times> PlayerStats list) list"
  fetch_log :: "pystr list"

text \<open>
  The network answers the request number \<open>n\<close> for a URL with a page, or not at all (None:
  \<open>requests.get\<close> or \<open>raise_for_status\<close> raises).
\<close>

type_synonym network = "nat \<Rightarrow> pystr \<Rightarrow> node option"

text \<open>The body of \<open>get_players\<close>: \<open>fetch_html\<close>, then \<open>parse_html\<close>.\<close>

definition fetch_and_parse ::
  "network \<Rightarrow> nat \<Rightarrow> pystr \<Rightarrow> bool \<Rightarrow> app_state \<Rightarrow> (error + PlayerStats list) \<times> app_state" where
  "fetch_and_parse net maxd season playoff st =
     (case build_url maxd season playoff of
        Inl e \<Rightarrow> (Inl e, st)
      | Inr url \<Rightarrow>
          (let st' = st\<lparr>fetch_log := fetch_log st @ [url]\<rparr>
           in case net (length (fetch_log st)) url of
                None \<Rightarrow> (Inl FetchError, st')
              | Some soup \<Rightarrow> (parse_html maxd soup, st')))"

definition get_players ::
  "network \<Rightarrow> nat \<Rightarrow> pystr \<Rightarrow> bool \<Rightarrow> app_state \<Rightarrow> (error + PlayerStats list) \<times> app_state" where
  "get_players net maxd season playoff st =
     (let k = (season, playoff)
      in case map_of (cache st) k of
           Some ps \<Rightarrow> (Inr ps, st\<lparr>cache := (k, ps) # filter (\<lambda>e. fst e \<noteq> k) (cache st)\<rparr>)
         | None \<Rightarrow>
             (case fetch_and_parse net maxd season playoff st of
                (Inl e, st') \<Rightarrow> (Inl e, st')
              | (Inr ps, st') \<Rightarrow>
                  (Inr ps,
                   st'\<lparr>cache := (if 10 \<le> length (cache st') then (k, ps) # butlast (cache st')
                                  else (k, ps) # cache st')\<rparr>)))"

section \<open>Search and lookup\<close>

text \<open>
  \<open>str.lower()\<close> follows the case mappings of the whole of Unicode; the functions below take
  it as the parameter \<open>lower\<close>, and the theorems hold for every such function.
\<close>

fun search_loop ::
  "(pystr \<Rightarrow> pystr) \<Rightarrow> pystr \<Rightarrow> int \<Rightarrow> PlayerStats list \<Rightarrow> PlayerStats list \<Rightarrow> PlayerStats list" where
  "search_loop lower q limit [] matches = matches"
| "search_loop lower q limit (p # ps) matches =
     (if prefix q (lower (name p)) then
        (let matches' = matches @ [p]
         in if limit \<le> int (length matches') then matches'
            else search_loop lower q limit ps matches')
      else search_loop lower q limit ps matches)"

definition search_players ::
  "(pystr \<Rightarrow> pystr) \<Rightarrow> pystr \<Rightarrow> PlayerStats list \<Rightarrow> int \<Rightarrow> PlayerStats list" where
  "search_players lower query players limit =
     (let q = lower (py_strip query)
      in if q = [] then [] else search_loop lower q limit players [])"

fun lookup_loop :: "(pystr \<Rightarrow> pystr) \<Rightarrow> pystr \<Rightarrow> PlayerStats list \<Rightarrow> PlayerStats option" where
  "lookup_loop lower target [] = None"
| "lookup_loop lower target (p # ps) =
     (if lower (name p) = target then Some p else lookup_loop lower target ps)"

definition get_player_stats ::
  "(pystr \<Rightarrow> pystr) \<Rightarrow> network \<Rightarrow> nat \<Rightarrow> pystr \<Rightarrow> pystr \<Rightarrow> bool \<Rightarrow> app_state
     \<Rightarrow> (error + PlayerStats option) \<times> app_state" where
  "get_player_stats lower net maxd nm season playoff st =
     (case get_players net maxd season playoff st of
        (Inl e, st') \<Rightarrow> (Inl e, st')
      | (Inr players, st') \<Rightarrow> (Inr (lookup_loop lower (py_strip (lower nm)) players), st'))"

section \<open>Texts of decimal digits\<close>

text \<open>
  The value a text of decimal digits denotes, read independently of \<open>py_int\<close>: the digits
  from left to right, most significant first. The empty text has the value 0.
\<close>

definition dec_val :: "nat \<Rightarrow> nat" where
  "dec_val c = (case decimal_of c of None \<Rightarrow> 0 | Some d \<Rightarrow> d)"

definition text_value :: "pystr \<Rightarrow> nat" where
  "text_value s = digits_value (map dec_val s)"






section \<open>Stored names\<close>

text \<open>
  The names \<open>parse_html\<close> stores are cell texts, trimmed when they are read; the cache
  only ever holds lists that \<open>parse_html\<close> returned.
\<close>

definition names_stripped :: "PlayerStats list \<Rightarrow> bool" where
  "names_stripped ps \<longleftrightarrow> list_all (\<lambda>p. py_strip (name p) = name p) ps"

definition cache_stripped :: "app_state \<Rightarrow> bool" where
  "cache_stripped st \<longleftrightarrow> list_all (\<lambda>e. names_stripped (snd e)) (cache st)"

section \<open>Example data\<close>

definition row_of :: "string list \<Rightarrow> node" where
  "row_of cells = Tag ''tr'' (map (\<lambda>c. Tag ''td'' [Text (ascii c)]) cells)"

definition header_row :: node where
  "header_row = Tag ''tr'' [Tag ''th'' [Text [8470]], Tag ''th'' [Text player_label]]"

definition row_ivanov :: node where
  "row_ivanov = row_of [''1'', ''Ivanov'', ''Ak Bars'', ''AKB'', ''F'', ''10'', ''4'', ''6'',
     ''9'', ''-3'', ''12'', ''30'']"

definition row_petrov :: node where
  "row_petrov = row_of [''2'', ''Petrov'', ''SKA'', ''SKA'', ''D'', ''8'', ''3'', ''5'',
     ''9'', ''5'', ''n/a'', ''21'']"

definition row_sidorov :: node where
  "row_sidorov = row_of [''3'', ''Sidorov'', ''CSKA'', ''CSK'', ''G'', ''7'', ''0'', ''7'',
     ''-1'', ''+2'', ''4'', ''11'']"

definition short_row :: node where
  "short_row = row_of [''2'', ''Petrov'', ''SKA'', ''SKA'', ''D'']"

definition ivanov :: PlayerStats where
  "ivanov = \<lparr>name = ascii ''Ivanov'', team = ascii ''Ak Bars'', team_abbr = ascii ''AKB'',
     position = ascii ''F'', points = 10, goals = 4, assists = 6, games = 9,
     plus_minus = - 3, penalty = 12\<rparr>"

definition petrov :: PlayerStats where
  "petrov = \<lparr>name = ascii ''Petrov'', team = ascii ''SKA'', team_abbr = ascii ''SKA'',
     position = ascii ''D'', points = 8, goals = 3, assists = 5, games = 9,
     plus_minus = 5, penalty = 0\<rparr>"

definition sidorov :: PlayerStats where
  "sidorov = \<lparr>name = ascii ''Sidorov'', team = ascii ''CSKA'', team_abbr = ascii ''CSK'',
     position = ascii ''G'', points = 7, goals = 0, assists = 7, games = 0,
     plus_minus = 0, penalty = 4\<rparr>"

definition menu_table :: node where
  "menu_table = Tag ''table'' [Tag ''tr'' [Tag ''td'' [Text (ascii ''menu'')]]]"

text \<open>A header row, three rows of twelve cells and, between them, a row of five cells.\<close>

definition stats_table :: node where
  "stats_table = Tag ''table'' [header_row, row_ivanov, short_row, row_petrov, row_sidorov]"

definition sample_page :: node where
  "sample_page = Tag ''[document]'' [menu_table, stats_table]"

definition menu_page :: node where
  "menu_page = Tag ''[document]'' [menu_table]"

definition empty_state :: app_state where
  "empty_state = \<lparr>cache = [], fetch_log = []\<rparr>"

text \<open>A network that answers every request with the sample page, and one that is down.\<close>

definition sample_net :: network where
  "sample_net n url = Some sample_page"

definition down_net :: network where
  "down_net n url = None"

text \<open>\<open>str.lower()\<close> on ASCII text, for the examples.\<close>

definition lower_ascii :: "pystr \<Rightarrow> pystr" where
  "lower_ascii s = map (\<lambda>c. if 65 \<le> c \<and> c \<le> 90 then c + 32 else c) s"

text \<open>A row of twelve cells whose points cell is the superscript two, U+00B2.\<close>

definition row_orlov :: node where
  "row_orlov = Tag ''tr'' (map (\<lambda>t. Tag ''td'' [Text t])
     [ascii ''4'', ascii ''Orlov'', ascii ''Dynamo'', ascii ''DYN'', ascii ''F'', [178],
      ascii ''1'', ascii ''1'', ascii ''3'', ascii ''0'', ascii ''2'', ascii ''5''])"


section \<open>Evaluation of the example data\<close>

lemmas char_defs = py_isspace_def decimal_of_def nd_blocks_def digit_char_def
  digit_only_ranges_def py_isdecimal_def int_space_def

lemmas str_defs = py_strip_def py_isdigit_def py_int_def digits_value_def re_plus_minus_def
  ascii_def

lemmas dom_defs = find_all_def is_tag_def cell_texts_def player_label_def

lemmas row_defs = parse_row_def make_player_def py_index_def count_field_def
  plus_minus_field_def

lemma parse_row_ivanov: "parse_row maxd (cell_texts row_ivanov) = Some ivanov"
  by (simp add: row_ivanov_def ivanov_def row_of_def dom_defs char_defs str_defs row_defs)

lemma parse_row_petrov: "parse_row maxd (cell_texts row_petrov) = Some petrov"
  by (simp add: row_petrov_def petrov_def row_of_def dom_defs char_defs str_defs row_defs)

lemma parse_row_sidorov: "parse_row maxd (cell_texts row_sidorov) = Some sidorov"
  by (simp add: row_sidorov_def sidorov_def row_of_def dom_defs char_defs str_defs row_defs)

lemma parse_row_short: "parse_row maxd (cell_texts short_row) = None"
  by (simp add: short_row_def row_of_def dom_defs parse_row_def)

lemma tables_sample_page: "find_all [''table''] sample_page = [menu_table] @ stats_table # []"
  by (simp add: sample_page_def menu_table_def stats_table_def header_row_def row_ivanov_def
      row_petrov_def row_sidorov_def short_row_def row_of_def find_all_def is_tag_def)

lemma tables_menu_page: "find_all [''table''] menu_page = [menu_table]"
  by (simp add: menu_page_def menu_table_def find_all_def is_tag_def)

lemma label_menu_table: "player_label \<notin> set (cell_texts menu_table)"
  by (simp add: menu_table_def dom_defs py_strip_def py_isspace_def ascii_def)

lemma label_stats_table: "player_label \<in> set (cell_texts stats_table)"
  by (simp add: stats_table_def header_row_def dom_defs py_strip_def py_isspace_def)

lemma rows_stats_table:
  "drop 1 (find_all [''tr''] stats_table) = [row_ivanov, short_row, row_petrov, row_sidorov]"
  by (simp add: stats_table_def header_row_def row_ivanov_def row_petrov_def row_sidorov_def
      short_row_def row_of_def find_all_def is_tag_def)

lemma parse_rows_sample:
  "parse_rows maxd [row_ivanov, short_row, row_petrov, row_sidorov] [] = [ivanov, petrov, sidorov]"
  by (simp add: parse_row_ivanov parse_row_petrov parse_row_sidorov parse_row_short)

lemma url_2025:
  "build_url 4300 (ascii ''2025'') False = Inr (ascii ''https://allhockey.ru/stat/khl/2025/312/player'')"
  by (simp add: build_url_def season_to_year_def py_index_def char_defs str_defs py_str_int_def
      nat_digits.simps)

lemma url_2024_2025:
  "build_url 4300 (ascii ''2024/2025'') False =
     Inr (ascii ''https://allhockey.ru/stat/khl/2025/312/player'')"
  by (simp add: build_url_def season_to_year_def py_index_def char_defs str_defs py_str_int_def
      nat_digits.simps)


section \<open>Table selection\<close>

lemma find_table_find:
  "find_table ts = find (\<lambda>t. player_label \<in> set (cell_texts t)) ts"
  by (induction ts) (auto simp: Let_def)

lemma find_Some_holds: "find P xs = Some x \<Longrightarrow> P x \<and> x \<in> set xs"
  by (induction xs) (auto split: if_splits)

lemma find_first_split: "\<forall>u \<in> set pre. \<not> P u \<Longrightarrow> P t \<Longrightarrow> find P (pre @ t # post) = Some t"
  by (induction pre) auto

lemma parse_html_not_found_iff:
  "parse_html maxd soup = Inl e \<longleftrightarrow>
     e = TableNotFound \<and> (\<forall>t \<in> set (find_all [''table''] soup). player_label \<notin> set (cell_texts t))"
  by (auto simp: parse_html_def find_table_find find_None_iff split: option.splits
           dest: find_Some_holds)

lemma parse_html_first_table:
  assumes "find_all [''table''] soup = pre @ t # post"
      and "\<forall>u \<in> set pre. player_label \<notin> set (cell_texts u)"
      and "player_label \<in> set (cell_texts t)"
  shows "parse_html maxd soup = Inr (parse_rows maxd (drop 1 (find_all [''tr''] t)) [])"
proof -
  have "find (\<lambda>t. player_label \<in> set (cell_texts t)) (find_all [''table''] soup) = Some t"
    using assms by (simp add: find_first_split)
  then show ?thesis by (simp add: parse_html_def find_table_find)
qed

lemma parse_html_sample: "parse_html maxd sample_page = Inr [ivanov, petrov, sidorov]"
proof -
  have "parse_html maxd sample_page =
      Inr (parse_rows maxd (drop 1 (find_all [''tr''] stats_table)) [])"
    by (rule parse_html_first_table[OF tables_sample_page])
       (simp_all add: label_menu_table label_stats_table)
  then show ?thesis unfolding rows_stats_table parse_rows_sample .
qed

text \<open>
  Claim C4. \<open>parse_html\<close> selects the first table in document order whose cell texts
  contain the label of the player-name column, and parses the rows of that table; it fails,
  with TableNotFound, exactly when no table of the document contains the label.
\<close>

theorem parse_html_table_selection:
  "(parse_html maxd soup = Inl TableNotFound \<longleftrightarrow>
      \<not> (\<exists>t \<in> set (find_all [''table''] soup). player_label \<in> set (cell_texts t))) \<and>
   (\<forall>e. parse_html maxd soup = Inl e \<longrightarrow> e = TableNotFound) \<and>
   (\<forall>pre t post. find_all [''table''] soup = pre @ t # post \<and>
        (\<forall>u \<in> set pre. player_label \<notin> set (cell_texts u)) \<and> player_label \<in> set (cell_texts t)
      \<longrightarrow> parse_html maxd soup = Inr (parse_rows maxd (drop 1 (find_all [''tr''] t)) []))"
proof (intro conjI allI impI)
  show "parse_html maxd soup = Inl TableNotFound \<longleftrightarrow>
      \<not> (\<exists>t \<in> set (find_all [''table''] soup). player_label \<in> set (cell_texts t))"
    by (simp add: parse_html_not_found_iff)
next
  fix e assume "parse_html maxd soup = Inl e"
  then show "e = TableNotFound" by (simp add: parse_html_not_found_iff)
next
  fix pre t post
  assume "find_all [''table''] soup = pre @ t # post \<and>
        (\<forall>u \<in> set pre. player_label \<notin> set (cell_texts u)) \<and> player_label \<in> set (cell_texts t)"
  then show "parse_html maxd soup = Inr (parse_rows maxd (drop 1 (find_all [''tr''] t)) [])"
    using parse_html_first_table by blast
qed

theorem parse_html_table_selection_witness:
  "parse_html 4300 sample_page = Inr (parse_rows 4300 (drop 1 (find_all [''tr''] stats_table)) []) \<and>
   parse_html 4300 menu_page = Inl TableNotFound"
proof -
  have sel: "find_all [''table''] sample_page = [menu_table] @ stats_table # [] \<and>
        (\<forall>u \<in> set [menu_table]. player_label \<notin> set (cell_texts u)) \<and>
        player_label \<in> set (cell_texts stats_table)"
    using tables_sample_page label_menu_table label_stats_table by simp
  have none: "\<not> (\<exists>t \<in> set (find_all [''table''] menu_page). player_label \<in> set (cell_texts t))"
    using tables_menu_page label_menu_table by simp
  from parse_html_table_selection[of 4300 sample_page] sel
  have "parse_html 4300 sample_page = Inr (parse_rows 4300 (drop 1 (find_all [''tr''] stats_table)) [])"
    by blast
  moreover from parse_html_table_selection[of 4300 menu_page] none
  have "parse_html 4300 menu_page = Inl TableNotFound" by blast
  ultimately show ?thesis by simp
qed

section \<open>Properties of the season cache\<close>

lemma map_of_filter_None: "map_of xs k = None \<Longrightarrow> map_of (filter P xs) k = None"
  by (induction xs) (auto split: if_splits)

lemma map_of_butlast_None: "map_of xs k = None \<Longrightarrow> map_of (butlast xs) k = None"
  by (auto simp: map_of_eq_None_iff dest: in_set_butlastD)

lemma fetch_and_parse_cache: "fetch_and_parse net maxd season playoff st = (r, st') \<Longrightarrow> cache st' = cache st"
  by (auto simp: fetch_and_parse_def Let_def split: sum.splits option.splits)

lemma fetch_and_parse_log:
  "fetch_and_parse net maxd season playoff st = (r, st') \<Longrightarrow>
     fetch_log st' = (case build_url maxd season playoff of Inl e \<Rightarrow> fetch_log st | Inr url \<Rightarrow> fetch_log st @ [url])"
  by (auto simp: fetch_and_parse_def Let_def split: sum.splits option.splits)


lemma get_players_miss:
  "map_of (cache st) (season, playoff) = None \<Longrightarrow>
   get_players net maxd season playoff st =
     (case fetch_and_parse net maxd season playoff st of
        (Inl e, st') \<Rightarrow> (Inl e, st')
      | (Inr ps, st') \<Rightarrow>
          (Inr ps, st'\<lparr>cache := (if 10 \<le> length (cache st') then ((season, playoff), ps) # butlast (cache st')
                                  else ((season, playoff), ps) # cache st')\<rparr>))"
  by (simp add: get_players_def Let_def)



text \<open>
  Claim C9. When a call to \<open>get_players\<close> fails, the error is the one of fetching and
  parsing, the cache is left as it was, with no entry for the key; after a fetch or parse
  error the next call for the key requests the page from the network again.
\<close>

theorem get_players_failure_not_cached:
  assumes fail: "get_players net maxd season playoff st = (Inl e, st1)"
  shows "fetch_and_parse net maxd season playoff st = (Inl e, st1) \<and>
         cache st1 = cache st \<and> map_of (cache st1) (season, playoff) = None \<and>
         (e = FetchError \<or> e = TableNotFound \<longrightarrow>
            (\<exists>url r st2. build_url maxd season playoff = Inr url \<and>
               get_players net' maxd season playoff st1 = (r, st2) \<and>
               fetch_log st2 = fetch_log st1 @ [url]))"
proof -
  from fail have miss: "map_of (cache st) (season, playoff) = None"
    by (auto simp: get_players_def Let_def split: option.splits)
  obtain r st' where fp: "fetch_and_parse net maxd season playoff st = (r, st')"
    by (cases "fetch_and_parse net maxd season playoff st")
  from fail miss fp have fp': "fetch_and_parse net maxd season playoff st = (Inl e, st1)"
    by (auto simp: get_players_miss split: sum.splits)
  have c: "cache st1 = cache st" using fetch_and_parse_cache[OF fp'] .
  have m1: "map_of (cache st1) (season, playoff) = None" using miss c by simp
  have retry: "\<exists>url r st2. build_url maxd season playoff = Inr url \<and>
               get_players net' maxd season playoff st1 = (r, st2) \<and>
               fetch_log st2 = fetch_log st1 @ [url]" if e: "e = FetchError \<or> e = TableNotFound"
  proof -
    from fp' e obtain url where url: "build_url maxd season playoff = Inr url"
      by (auto simp: fetch_and_parse_def build_url_def season_to_year_def Let_def parse_html_def
               split: sum.splits option.splits if_splits)
    obtain r2 s2 where fp2: "fetch_and_parse net' maxd season playoff st1 = (r2, s2)"
      by (cases "fetch_and_parse net' maxd season playoff st1")
    from fetch_and_parse_log[OF fp2] url have l2: "fetch_log s2 = fetch_log st1 @ [url]" by simp
    obtain r3 s3 where gp: "get_players net' maxd season playoff st1 = (r3, s3)"
      by (cases "get_players net' maxd season playoff st1")
    from gp m1 fp2 l2 have "fetch_log s3 = fetch_log st1 @ [url]"
      by (auto simp: get_players_miss split: sum.splits)
    with url gp show ?thesis by blast
  qed
  from fp' c m1 retry show ?thesis by blast
qed


lemma sample_first_call:
  "get_players sample_net 4300 (ascii ''2025'') False empty_state =
     (Inr [ivanov, petrov, sidorov],
      \<lparr>cache = [((ascii ''2025'', False), [ivanov, petrov, sidorov])],
       fetch_log = [ascii ''https://allhockey.ru/stat/khl/2025/312/player'']\<rparr>)"
proof -
  show ?thesis
    by (simp add: parse_html_sample get_players_def fetch_and_parse_def url_2025 empty_state_def sample_net_def Let_def)
qed

lemma down_first_call:
  "get_players down_net 4300 (ascii ''2025'') False empty_state =
     (Inl FetchError,
      \<lparr>cache = [], fetch_log = [ascii ''https://allhockey.ru/stat/khl/2025/312/player'']\<rparr>)"
  by (simp add: get_players_def fetch_and_parse_def url_2025 empty_state_def down_net_def Let_def)


theorem get_players_failure_not_cached_witness:
  "get_players down_net 4300 (ascii ''2025'') False empty_state =
     (Inl FetchError,
      \<lparr>cache = [], fetch_log = [ascii ''https://allhockey.ru/stat/khl/2025/312/player'']\<rparr>) \<and>
   fetch_log (snd (get_players sample_net 4300 (ascii ''2025'') False
      \<lparr>cache = [], fetch_log = [ascii ''https://allhockey.ru/stat/khl/2025/312/player'']\<rparr>)) =
     [ascii ''https://allhockey.ru/stat/khl/2025/312/player'',
      ascii ''https://allhockey.ru/stat/khl/2025/312/player'']"
proof -
  from get_players_failure_not_cached[OF down_first_call, of sample_net]
  obtain url r st2 where "build_url 4300 (ascii ''2025'') False = Inr url"
    and "get_players sample_net 4300 (ascii ''2025'') False
      \<lparr>cache = [], fetch_log = [ascii ''https://allhockey.ru/stat/khl/2025/312/player'']\<rparr> = (r, st2)"
    and "fetch_log st2 = [ascii ''https://allhockey.ru/stat/khl/2025/312/player''] @ [url]"
    by auto
  then show ?thesis using down_first_call by (simp add: url_2025)
qed

lemma get_players_other_key:
  assumes "map_of (cache st) k2 = None" "k2 \<noteq> (season, playoff)"
      and "get_players net maxd season playoff st = (r, st1)"
  shows "map_of (cache st1) k2 = None"
proof (cases "map_of (cache st) (season, playoff)")
  case (Some ps)
  with assms(3) have "cache st1 = ((season, playoff), ps) # filter (\<lambda>e. fst e \<noteq> (season, playoff)) (cache st)"
    by (auto simp: get_players_def Let_def)
  then show ?thesis using assms(1,2) by (simp add: map_of_filter_None)
next
  case None
  obtain r' st' where fp: "fetch_and_parse net maxd season playoff st = (r', st')"
    by (cases "fetch_and_parse net maxd season playoff st")
  have c: "cache st' = cache st" using fetch_and_parse_cache[OF fp] .
  from assms(3) None fp c have "cache st1 = cache st \<or>
      (\<exists>ps. cache st1 = ((season, playoff), ps) # butlast (cache st)) \<or>
      (\<exists>ps. cache st1 = ((season, playoff), ps) # cache st)"
    by (auto simp: get_players_miss split: sum.splits if_splits)
  then show ?thesis using assms(1,2) by (auto simp: map_of_butlast_None)
qed

lemma get_players_miss_fetches:
  assumes "map_of (cache st) (season, playoff) = None" "build_url maxd season playoff = Inr url"
  shows "\<exists>r st2. get_players net maxd season playoff st = (r, st2) \<and> fetch_log st2 = fetch_log st @ [url]"
proof -
  obtain r2 s2 where fp2: "fetch_and_parse net maxd season playoff st = (r2, s2)"
    by (cases "fetch_and_parse net maxd season playoff st")
  from fetch_and_parse_log[OF fp2] assms(2) have l2: "fetch_log s2 = fetch_log st @ [url]" by simp
  obtain r3 s3 where gp: "get_players net maxd season playoff st = (r3, s3)"
    by (cases "get_players net maxd season playoff st")
  from gp assms(1) fp2 l2 have "fetch_log s3 = fetch_log st @ [url]"
    by (auto simp: get_players_miss split: sum.splits)
  with gp show ?thesis by blast
qed

text \<open>
  Claim C10, as amended. The season cache stores entries keyed by the season string and the
  play-off flag as they are passed, not by the resolved year: after a call with one
  spelling of a season, another spelling that is not in the cache is still not in it, and
  a call with it requests the page from the network, whatever year the two spellings
  resolve to.
\<close>

theorem cache_keyed_by_season_string:
  assumes "s2 \<noteq> s1"
      and "map_of (cache st) (s2, playoff) = None"
      and "get_players net maxd s1 playoff st = (r1, st1)"
      and "build_url maxd s2 playoff = Inr url"
  shows "map_of (cache st1) (s2, playoff) = None \<and>
         (\<exists>r st2. get_players net' maxd s2 playoff st1 = (r, st2) \<and>
                  fetch_log st2 = fetch_log st1 @ [url])"
proof -
  have "map_of (cache st1) (s2, playoff) = None"
    using get_players_other_key[OF assms(2) _ assms(3)] assms(1) by simp
  then show ?thesis using get_players_miss_fetches[OF _ assms(4)] by blast
qed

lemma sample_second_spelling:
  "get_players sample_net 4300 (ascii ''2024/2025'') False
      \<lparr>cache = [((ascii ''2025'', False), [ivanov, petrov, sidorov])],
       fetch_log = [ascii ''https://allhockey.ru/stat/khl/2025/312/player'']\<rparr> =
     (Inr [ivanov, petrov, sidorov],
      \<lparr>cache = [((ascii ''2024/2025'', False), [ivanov, petrov, sidorov]),
                ((ascii ''2025'', False), [ivanov, petrov, sidorov])],
       fetch_log = [ascii ''https://allhockey.ru/stat/khl/2025/312/player'',
                    ascii ''https://allhockey.ru/stat/khl/2025/312/player'']\<rparr>)"
proof -
  have ne: "ascii ''2025'' \<noteq> ascii ''2024/2025''" by (simp add: ascii_def)
  show ?thesis
    using ne by (simp add: parse_html_sample get_players_def fetch_and_parse_def url_2024_2025
        sample_net_def Let_def)
qed

theorem season_spellings_separate_entries:
  "build_url 4300 (ascii ''2025'') False = build_url 4300 (ascii ''2024/2025'') False \<and>
   length (fetch_log (snd (get_players sample_net 4300 (ascii ''2024/2025'') False
      (snd (get_players sample_net 4300 (ascii ''2025'') False empty_state))))) = 2 \<and>
   map fst (cache (snd (get_players sample_net 4300 (ascii ''2024/2025'') False
      (snd (get_players sample_net 4300 (ascii ''2025'') False empty_state))))) =
     [(ascii ''2024/2025'', False), (ascii ''2025'', False)]"
  by (simp add: sample_first_call sample_second_spelling url_2025 url_2024_2025)

theorem cache_keyed_by_season_string_witness:
  "ascii ''2024/2025'' \<noteq> ascii ''2025'' \<and>
   map_of (cache empty_state) (ascii ''2024/2025'', False) = None \<and>
   map_of (cache (snd (get_players sample_net 4300 (ascii ''2025'') False empty_state)))
      (ascii ''2024/2025'', False) = None \<and>
   fetch_log (snd (get_players down_net 4300 (ascii ''2024/2025'') False
      (snd (get_players sample_net 4300 (ascii ''2025'') False empty_state)))) =
     [ascii ''https://allhockey.ru/stat/khl/2025/312/player'',
      ascii ''https://allhockey.ru/stat/khl/2025/312/player'']"
proof -
  have ne: "ascii ''2024/2025'' \<noteq> ascii ''2025''" by (simp add: ascii_def)
  have miss: "map_of (cache empty_state) (ascii ''2024/2025'', False) = None"
    by (simp add: empty_state_def)
  from cache_keyed_by_season_string[OF ne miss sample_first_call url_2024_2025, of down_net]
  show ?thesis using ne miss by (auto simp: sample_first_call)
qed

section \<open>Conversion of digit texts\<close>

lemma space_values:
  "py_isspace c \<longleftrightarrow> c \<in> set [9, 10, 11, 12, 13, 28, 29, 30, 31, 32, 133, 160, 5760, 8192, 8193, 8194,
      8195, 8196, 8197, 8198, 8199, 8200, 8201, 8202, 8232, 8233, 8239, 8287, 12288]"
  unfolding py_isspace_def by (simp; arith)

lemma special_not_decimal:
  "\<forall>c \<in> set [9, 10, 11, 12, 13, 28, 29, 30, 31, 32, 133, 160, 5760, 8192, 8193, 8194,
      8195, 8196, 8197, 8198, 8199, 8200, 8201, 8202, 8232, 8233, 8239, 8287, 12288, 43, 45, 47, 95].
     decimal_of c = None \<and> \<not> list_ex (\<lambda>(lo, hi). lo \<le> c \<and> c \<le> hi) digit_only_ranges"
  by (simp add: decimal_of_def nd_blocks_def digit_only_ranges_def)

lemma special_char:
  assumes "py_isspace c \<or> c = 43 \<or> c = 45 \<or> c = 47 \<or> c = 95"
  shows "decimal_of c = None \<and> \<not> list_ex (\<lambda>(lo, hi). lo \<le> c \<and> c \<le> hi) digit_only_ranges"
proof -
  from assms have "c \<in> set [9, 10, 11, 12, 13, 28, 29, 30, 31, 32, 133, 160, 5760, 8192, 8193, 8194,
      8195, 8196, 8197, 8198, 8199, 8200, 8201, 8202, 8232, 8233, 8239, 8287, 12288, 43, 45, 47, 95]"
    unfolding space_values by auto
  then show ?thesis by (rule special_not_decimal[rule_format])
qed

lemma int_space_isspace: "int_space c \<Longrightarrow> py_isspace c"
  unfolding int_space_def py_isspace_def by arith

lemma decimal_not_special:
  assumes "decimal_of c = Some d"
  shows "\<not> int_space c \<and> \<not> py_isspace c \<and> c \<noteq> 45 \<and> c \<noteq> 43 \<and> c \<noteq> 95 \<and> c \<noteq> 47"
  using special_char[of c] int_space_isspace[of c] assms by auto

lemma isdecimal_not_special:
  "py_isdecimal c \<Longrightarrow> \<not> int_space c \<and> \<not> py_isspace c \<and> c \<noteq> 45 \<and> c \<noteq> 43 \<and> c \<noteq> 95 \<and> c \<noteq> 47"
  using decimal_not_special by (auto simp: py_isdecimal_def)

lemma digit_not_special:
  assumes "digit_char c"
  shows "\<not> int_space c \<and> \<not> py_isspace c \<and> c \<noteq> 45 \<and> c \<noteq> 43 \<and> c \<noteq> 95"
  using special_char[of c] int_space_isspace[of c] assms
  by (auto simp: digit_char_def py_isdecimal_def)

lemma body_digits_decimal:
  "s \<noteq> [] \<Longrightarrow> list_all py_isdecimal s \<Longrightarrow> body_digits s = Some (map dec_val s)"
proof (induction s rule: body_digits.induct)
  case 1
  then show ?case by simp
next
  case (2 c cs)
  from 2(4) obtain d where d: "decimal_of c = Some d" by (auto simp: py_isdecimal_def)
  show ?case
  proof (cases cs)
    case Nil
    then show ?thesis using d by (simp add: dec_val_def)
  next
    case (Cons c' cs')
    from 2(4) Cons obtain d' where d': "decimal_of c' = Some d'" by (auto simp: py_isdecimal_def)
    then have ne: "c' \<noteq> 95" using decimal_not_special by blast
    have "body_digits cs = Some (map dec_val cs)"
      using 2(2)[OF d Cons ne] 2(4) Cons by simp
    then show ?thesis using d Cons ne by (simp add: dec_val_def)
  qed
qed

lemma body_digits_no_underscore:
  "body_digits s = Some ds \<Longrightarrow> 95 \<notin> set s \<Longrightarrow>
     list_all py_isdecimal s \<and> s \<noteq> [] \<and> ds = map dec_val s"
proof (induction s arbitrary: ds rule: body_digits.induct)
  case 1
  then show ?case by simp
next
  case (2 c cs)
  from 2(3) obtain d where d: "decimal_of c = Some d" by (auto split: option.splits)
  show ?case
  proof (cases cs)
    case Nil
    then show ?thesis using d 2(3) by (simp add: dec_val_def py_isdecimal_def)
  next
    case (Cons c' cs')
    have pc: "py_isdecimal c" using d by (simp add: py_isdecimal_def)
    from Cons 2(4) have ne: "c' \<noteq> 95" by auto
    from 2(3) d Cons ne obtain ds' where ds': "body_digits cs = Some ds'" "ds = d # ds'"
      by auto
    from 2(2)[OF d Cons ne ds'(1)] 2(4)
    have "list_all py_isdecimal cs \<and> cs \<noteq> [] \<and> ds' = map dec_val cs"
      by simp
    then show ?thesis using d ds' pc by (simp add: dec_val_def)
  qed
qed

text \<open>A text that neither starts nor ends with a character \<open>int\<close> skips, and has no sign.\<close>

lemma py_int_plain:
  assumes "s \<noteq> []" "\<not> int_space (hd s)" "\<not> int_space (last s)" "hd s \<noteq> 45" "hd s \<noteq> 43"
  shows "py_int maxd s =
     (case body_digits s of
           None \<Rightarrow> None
         | Some ds \<Rightarrow>
             if 640 < length ds \<and> 0 < maxd \<and> maxd < length ds then None
             else Some (int (digits_value ds)))"
proof -
  have 1: "dropWhile int_space s = s" using assms(1,2) by (cases s) auto
  have "dropWhile int_space (rev s) = rev s"
    using assms(1,3) by (cases "rev s") (auto simp: last_rev hd_rev[symmetric] dest: arg_cong[where f=hd])
  then have 2: "rev (dropWhile int_space (rev s)) = s" by simp
  show ?thesis using assms 1 2 by (simp add: py_int_def Let_def split: option.splits)
qed

lemma py_int_decimal:
  assumes "s \<noteq> []" "list_all py_isdecimal s"
  shows "py_int maxd s =
     (if 640 < length s \<and> 0 < maxd \<and> maxd < length s then None else Some (int (text_value s)))"
proof -
  from assms have h: "py_isdecimal (hd s)" "py_isdecimal (last s)"
    by (auto simp: list_all_iff)
  then have "\<not> int_space (hd s)" "\<not> int_space (last s)" "hd s \<noteq> 45" "hd s \<noteq> 43"
    using isdecimal_not_special by blast+
  from py_int_plain[OF assms(1) this] body_digits_decimal[OF assms]
  show ?thesis by (simp add: text_value_def)
qed


lemma py_int_isdigit:
  assumes "py_isdigit s" "py_int maxd s = Some v"
  shows "list_all py_isdecimal s \<and> v = int (text_value s)"
proof -
  from assms(1) have ne: "s \<noteq> []" and all: "\<forall>c \<in> set s. digit_char c"
    by (auto simp: py_isdigit_def list_all_iff)
  then have "digit_char (hd s)" "digit_char (last s)" by auto
  then have sp: "\<not> int_space (hd s)" "\<not> int_space (last s)" "hd s \<noteq> 45" "hd s \<noteq> 43"
    using digit_not_special by blast+
  have nu: "95 \<notin> set s" using all digit_not_special by blast
  from assms(2) py_int_plain[OF ne sp, of maxd] obtain ds where
    ds: "body_digits s = Some ds" "v = int (digits_value ds)"
    by (auto split: option.splits if_splits)
  from body_digits_no_underscore[OF ds(1) nu] ds(2) show ?thesis
    by (simp add: text_value_def)
qed

section \<open>Season identifiers\<close>














section \<open>Trimmed cell texts\<close>

lemma rev_dropWhile_rev_id:
  "s \<noteq> [] \<Longrightarrow> \<not> P (last s) \<Longrightarrow> rev (dropWhile P (rev s)) = s"
  by (cases s rule: rev_cases) auto

lemma last_dropWhile_nonempty:
  "dropWhile P xs \<noteq> [] \<Longrightarrow> last (dropWhile P xs) = last xs"
  by (induction xs) (auto split: if_splits)

lemma py_strip_ends:
  assumes "py_strip t \<noteq> []"
  shows "\<not> py_isspace (hd (py_strip t)) \<and> \<not> py_isspace (last (py_strip t))"
proof -
  define u where "u = dropWhile py_isspace t"
  define w where "w = dropWhile py_isspace (rev u)"
  have strip: "py_strip t = rev w" by (simp add: py_strip_def u_def w_def)
  with assms have w: "w \<noteq> []" by simp
  then have u: "u \<noteq> []" by (auto simp: w_def)
  have hw: "\<not> py_isspace (hd w)" using w unfolding w_def by (rule hd_dropWhile)
  have hu: "\<not> py_isspace (hd u)" using u unfolding u_def by (rule hd_dropWhile)
  have "last w = last (rev u)" using w unfolding w_def by (rule last_dropWhile_nonempty)
  then have lw: "last w = hd u" using u by (simp add: last_rev)
  show ?thesis using hw hu lw w by (simp add: strip hd_rev last_rev)
qed

lemma py_strip_fixed:
  assumes "s = [] \<or> (\<not> py_isspace (hd s) \<and> \<not> py_isspace (last s))"
  shows "py_strip s = s"
proof (cases "s = []")
  case True
  then show ?thesis by (simp add: py_strip_def)
next
  case False
  with assms have h: "\<not> py_isspace (hd s)" "\<not> py_isspace (last s)" by auto
  from False h(1) have "dropWhile py_isspace s = s" by (cases s) auto
  then show ?thesis using rev_dropWhile_rev_id[of s py_isspace, OF False h(2)] by (simp add: py_strip_def)
qed

lemma py_strip_idem: "py_strip (py_strip t) = py_strip t"
  using py_strip_ends[of t] by (intro py_strip_fixed) auto

lemma cell_texts_stripped: "c \<in> set (cell_texts tr) \<Longrightarrow> py_strip c = c"
  by (auto simp: cell_texts_def py_strip_idem)


section \<open>Rows\<close>




lemma decimal_is_digit: "py_isdecimal c \<Longrightarrow> digit_char c"
  by (simp add: digit_char_def)

lemma count_field_value:
  assumes "count_field maxd c = Some v"
  shows "v = (if list_all py_isdecimal c then int (text_value c) else 0)"
proof (cases "py_isdigit c")
  case True
  with assms have "py_int maxd c = Some v" by (simp add: count_field_def)
  from py_int_isdigit[OF True this] show ?thesis by simp
next
  case False
  with assms have v: "v = 0" by (simp add: count_field_def)
  have "c = []" if "list_all py_isdecimal c"
    using that False decimal_is_digit by (auto simp: py_isdigit_def list_all_iff)
  then show ?thesis using v by (auto simp: text_value_def digits_value_def)
qed

text \<open>
  The record construction can also raise on a cell of decimal digits: one longer than the
  digit limit of the interpreter.
\<close>

lemma count_field_over_limit:
  assumes "list_all py_isdecimal c" "640 < length c" "0 < maxd" "maxd < length c"
  shows "count_field maxd c = None"
proof -
  from assms(2) have ne: "c \<noteq> []" by auto
  have "py_isdigit c" using assms(1) ne decimal_is_digit by (auto simp: py_isdigit_def list_all_iff)
  then show ?thesis using py_int_decimal[OF ne assms(1), of maxd] assms(2-4)
    by (simp add: count_field_def)
qed

lemma make_player_Some:
  assumes "12 \<le> length cols"
  shows "make_player maxd cols = Some p \<longleftrightarrow>
     (\<exists>pts gls ast gms pm pen.
        count_field maxd (cols ! 5) = Some pts \<and> count_field maxd (cols ! 6) = Some gls \<and>
        count_field maxd (cols ! 7) = Some ast \<and> count_field maxd (cols ! 8) = Some gms \<and>
        plus_minus_field maxd (cols ! 9) = Some pm \<and> count_field maxd (cols ! 10) = Some pen \<and>
        p = \<lparr>name = cols ! 1, team = cols ! 2, team_abbr = cols ! 3, position = cols ! 4,
             points = pts, goals = gls, assists = ast, games = gms, plus_minus = pm,
             penalty = pen\<rparr>)"
  using assms by (auto simp: make_player_def py_index_def bind_eq_Some_conv)

lemma parse_row_Some:
  "parse_row maxd cols = Some p \<longleftrightarrow>
     12 \<le> length cols \<and>
     (\<exists>pts gls ast gms pm pen.
        count_field maxd (cols ! 5) = Some pts \<and> count_field maxd (cols ! 6) = Some gls \<and>
        count_field maxd (cols ! 7) = Some ast \<and> count_field maxd (cols ! 8) = Some gms \<and>
        plus_minus_field maxd (cols ! 9) = Some pm \<and> count_field maxd (cols ! 10) = Some pen \<and>
        p = \<lparr>name = cols ! 1, team = cols ! 2, team_abbr = cols ! 3, position = cols ! 4,
             points = pts, goals = gls, assists = ast, games = gms, plus_minus = pm,
             penalty = pen\<rparr>)"
proof (cases "12 \<le> length cols")
  case True
  then have "cols \<noteq> []" by auto
  then show ?thesis using True make_player_Some[OF True] by (simp add: parse_row_def)
next
  case False
  then show ?thesis by (simp add: parse_row_def)
qed

lemma parse_row_None:
  "parse_row maxd cols = None \<longleftrightarrow>
     length cols < 12 \<or> count_field maxd (cols ! 5) = None \<or> count_field maxd (cols ! 6) = None \<or>
     count_field maxd (cols ! 7) = None \<or> count_field maxd (cols ! 8) = None \<or>
     plus_minus_field maxd (cols ! 9) = None \<or> count_field maxd (cols ! 10) = None"
proof (cases "12 \<le> length cols")
  case True
  then have "cols \<noteq> []" by auto
  then show ?thesis using True
    by (auto simp: parse_row_def make_player_def py_index_def split: Option.bind_splits)
next
  case False
  then show ?thesis by (simp add: parse_row_def)
qed

text \<open>
  The count fields of a row that yields a record: the value of the cell when it is made
  of decimal digits, 0 otherwise.
\<close>

lemma count_fields_of_parsed_row:
  assumes "parse_row maxd cols = Some p"
  shows "points p = (if list_all py_isdecimal (cols ! 5) then int (text_value (cols ! 5)) else 0) \<and>
         goals p = (if list_all py_isdecimal (cols ! 6) then int (text_value (cols ! 6)) else 0) \<and>
         assists p = (if list_all py_isdecimal (cols ! 7) then int (text_value (cols ! 7)) else 0) \<and>
         games p = (if list_all py_isdecimal (cols ! 8) then int (text_value (cols ! 8)) else 0) \<and>
         penalty p = (if list_all py_isdecimal (cols ! 10) then int (text_value (cols ! 10)) else 0)"
proof -
  from assms obtain pts gls ast gms pm pen where
    f: "count_field maxd (cols ! 5) = Some pts" "count_field maxd (cols ! 6) = Some gls"
       "count_field maxd (cols ! 7) = Some ast" "count_field maxd (cols ! 8) = Some gms"
       "count_field maxd (cols ! 10) = Some pen"
    and p: "p = \<lparr>name = cols ! 1, team = cols ! 2, team_abbr = cols ! 3, position = cols ! 4,
             points = pts, goals = gls, assists = ast, games = gms, plus_minus = pm,
             penalty = pen\<rparr>"
    unfolding parse_row_Some by blast
  show ?thesis
    using f[THEN count_field_value] by (simp add: p)
qed





section \<open>A count cell that is a digit but not a decimal digit\<close>

lemma cells_orlov:
  "cell_texts row_orlov =
     [ascii ''4'', ascii ''Orlov'', ascii ''Dynamo'', ascii ''DYN'', ascii ''F'', [178],
      ascii ''1'', ascii ''1'', ascii ''3'', ascii ''0'', ascii ''2'', ascii ''5'']"
  by (simp add: row_orlov_def dom_defs py_strip_def py_isspace_def ascii_def)

lemma int_superscript: "py_int maxd [178] = None"
  by (simp add: py_int_def int_space_def py_isspace_def decimal_of_def nd_blocks_def)

lemma isdigit_superscript: "py_isdigit [178]"
  by (simp add: py_isdigit_def digit_char_def digit_only_ranges_def)

lemma parse_row_orlov: "parse_row maxd (cell_texts row_orlov) = None"
  by (simp add: cells_orlov parse_row_None count_field_def isdigit_superscript int_superscript)

text \<open>
  Claim C1, at a failing input. The superscript two passes \<open>isdigit()\<close> and \<open>int\<close> rejects
  it: a row of twelve cells with that text in the points cell raises in the \<open>try\<close> and is
  dropped, where the claim has the field 0 and the row produced. The plus/minus
  conversion of the same text, guarded by the pattern, yields 0.
\<close>

theorem superscript_count_cell_drops_row:
  "length (cell_texts row_orlov) = 12 \<and> cell_texts row_orlov ! 5 = [178] \<and>
   py_isdigit [178] \<and> py_int maxd [178] = None \<and> count_field maxd [178] = None \<and>
   parse_row maxd (cell_texts row_orlov) = None \<and> plus_minus_field maxd [178] = Some 0"
proof -
  have "plus_minus_field maxd [178] = Some 0"
    by (simp add: plus_minus_field_def re_plus_minus_def py_isdecimal_def decimal_of_def
        nd_blocks_def)
  moreover have "length (cell_texts row_orlov) = 12 \<and> cell_texts row_orlov ! 5 = [178]"
    by (simp add: cells_orlov)
  moreover have "count_field maxd [178] = None"
    by (simp add: count_field_def isdigit_superscript int_superscript)
  ultimately show ?thesis
    using parse_row_orlov isdigit_superscript int_superscript by blast
qed

section \<open>Row isolation\<close>

lemma parse_rows_acc:
  "parse_rows maxd rows acc =
     acc @ concat (map (\<lambda>tr. case parse_row maxd (cell_texts tr) of None \<Rightarrow> [] | Some p \<Rightarrow> [p]) rows)"
  by (induction rows arbitrary: acc) (auto split: option.splits)







section \<open>Search\<close>

text \<open>
  The loop collects the matching players in list order and stops after the append that
  brings the list to the limit: at least one match is collected whatever the limit.
\<close>

lemma search_loop_take:
  "search_loop lower q limit ps acc =
     acc @ take (nat (max 1 (limit - int (length acc))))
             (filter (\<lambda>p. prefix q (lower (name p))) ps)"
proof (induction ps arbitrary: acc)
  case Nil
  then show ?case by simp
next
  case (Cons p ps)
  show ?case
  proof (cases "prefix q (lower (name p))")
    case False
    then show ?thesis using Cons by simp
  next
    case True
    show ?thesis
    proof (cases "limit \<le> int (length acc) + 1")
      case stop: True
      then have "nat (max 1 (limit - int (length acc))) = 1" by simp
      then show ?thesis using True stop by (simp add: Let_def)
    next
      case go: False
      then have k: "nat (max 1 (limit - int (length acc))) =
          Suc (nat (max 1 (limit - int (length (acc @ [p])))))"
        by simp
      show ?thesis using True go Cons[of "acc @ [p]"] unfolding k
        by (simp add: Let_def)
    qed
  qed
qed

lemma search_players_take:
  "search_players lower query players limit =
     (if lower (py_strip query) = [] then []
      else take (nat (max 1 limit)) (filter (\<lambda>p. prefix (lower (py_strip query)) (lower (name p))) players))"
  by (simp add: search_players_def Let_def search_loop_take)

lemma search_players_within_positive_limit:
  "1 \<le> limit \<Longrightarrow> int (length (search_players lower query players limit)) \<le> limit"
  by (auto simp: search_players_take min_def)

text \<open>
  Claim C6, at a failing input. With the limit 0 the search for "iv" among Ivanov and
  Petrov returns Ivanov: one result, more than the limit.
\<close>

theorem search_limit_zero_returns_one:
  "search_players lower_ascii (ascii ''iv'') [ivanov, petrov] 0 = [ivanov] \<and>
   \<not> int (length (search_players lower_ascii (ascii ''iv'') [ivanov, petrov] 0)) \<le> 0"
proof -
  have "search_players lower_ascii (ascii ''iv'') [ivanov, petrov] 0 = [ivanov]"
    by (simp add: search_players_def ivanov_def petrov_def lower_ascii_def py_strip_def
        py_isspace_def ascii_def Let_def)
  then show ?thesis by simp
qed

section \<open>Lookup\<close>

lemma lookup_loop_find:
  "lookup_loop lower target ps = find (\<lambda>p. lower (name p) = target) ps"
  by (induction ps) auto

lemma parse_row_name_stripped:
  assumes "parse_row maxd (cell_texts tr) = Some p"
  shows "py_strip (name p) = name p"
proof -
  from assms have len: "12 \<le> length (cell_texts tr)" and n: "name p = cell_texts tr ! 1"
    unfolding parse_row_Some by auto
  from len have "cell_texts tr ! 1 \<in> set (cell_texts tr)" by simp
  then show ?thesis using n cell_texts_stripped by simp
qed

lemma parse_rows_stripped: "names_stripped (parse_rows maxd rows [])"
  unfolding parse_rows_acc names_stripped_def
  by (auto simp: list_all_iff parse_row_name_stripped split: option.splits)

lemma parse_html_stripped: "parse_html maxd soup = Inr ps \<Longrightarrow> names_stripped ps"
  by (auto simp: parse_html_def parse_rows_stripped split: option.splits)

lemma fetch_and_parse_stripped:
  "fetch_and_parse net maxd season playoff st = (Inr ps, st') \<Longrightarrow> names_stripped ps"
  by (auto simp: fetch_and_parse_def Let_def parse_html_stripped split: sum.splits option.splits)

text \<open>The cache invariant: it holds of the empty cache, and every call keeps it.\<close>

lemma get_players_stripped:
  assumes "cache_stripped st" "get_players net maxd season playoff st = (r, st')"
  shows "cache_stripped st' \<and> (\<forall>ps. r = Inr ps \<longrightarrow> names_stripped ps)"
proof (cases "map_of (cache st) (season, playoff)")
  case (Some ps)
  then have "((season, playoff), ps) \<in> set (cache st)" by (rule map_of_SomeD)
  with assms(1) have ps: "names_stripped ps" by (auto simp: cache_stripped_def list_all_iff)
  from assms(2) Some have "r = Inr ps"
    "cache st' = ((season, playoff), ps) # filter (\<lambda>e. fst e \<noteq> (season, playoff)) (cache st)"
    by (auto simp: get_players_def Let_def)
  then show ?thesis using ps assms(1) by (auto simp: cache_stripped_def list_all_iff)
next
  case None
  obtain r' s' where fp: "fetch_and_parse net maxd season playoff st = (r', s')"
    by (cases "fetch_and_parse net maxd season playoff st")
  have c: "cache s' = cache st" using fetch_and_parse_cache[OF fp] .
  show ?thesis
  proof (cases r')
    case (Inl e)
    with assms(2) None fp have "r = Inl e" "st' = s'" by (auto simp: get_players_miss)
    then show ?thesis using c assms(1) by (simp add: cache_stripped_def)
  next
    case (Inr ps)
    with fp have ps: "names_stripped ps" using fetch_and_parse_stripped by blast
    from assms(2) None fp Inr c have r: "r = Inr ps"
      and "cache st' = ((season, playoff), ps) # butlast (cache st) \<or>
       cache st' = ((season, playoff), ps) # cache st"
      by (auto simp: get_players_miss split: if_splits)
    then have "set (cache st') \<subseteq> insert ((season, playoff), ps) (set (cache st))"
      by (auto dest: in_set_butlastD)
    then have "\<forall>e \<in> set (cache st'). names_stripped (snd e)"
      using ps assms(1) by (auto simp: cache_stripped_def list_all_iff)
    then show ?thesis using ps r by (simp add: cache_stripped_def list_all_iff)
  qed
qed

text \<open>
  Claim C7. The lookup returns the first player, in list order, whose name equals the
  given name after trimming and lower-casing both, and None when there is none; so a name
  that differs from a stored one only in letter case or surrounding whitespace finds it.
  The stored names are trimmed (the cache holds what \<open>parse_html\<close> returned), and
  lower-casing commutes with trimming.
\<close>

theorem get_player_stats_first_match:
  assumes comm: "\<And>s. py_strip (lower s) = lower (py_strip s)"
      and inv: "cache_stripped st"
      and ok: "get_players net maxd season playoff st = (Inr players, st')"
  shows "get_player_stats lower net maxd nm season playoff st =
           (Inr (find (\<lambda>p. lower (py_strip (name p)) = lower (py_strip nm)) players), st')"
proof -
  from get_players_stripped[OF inv ok] have "names_stripped players" by simp
  then have "\<forall>p \<in> set players. py_strip (name p) = name p"
    by (simp add: names_stripped_def list_all_iff)
  then have "find (\<lambda>p. lower (name p) = py_strip (lower nm)) players =
      find (\<lambda>p. lower (py_strip (name p)) = lower (py_strip nm)) players"
    by (intro find_cong) (auto simp: comm)
  then show ?thesis using ok by (simp add: get_player_stats_def lookup_loop_find)
qed

lemma lower_ascii_space: "py_isspace (if 65 \<le> c \<and> c \<le> 90 then c + 32 else c) = py_isspace c"
  unfolding py_isspace_def by arith

lemma dropWhile_lower_ascii:
  "dropWhile py_isspace (lower_ascii s) = lower_ascii (dropWhile py_isspace s)"
  by (induction s) (auto simp: lower_ascii_def lower_ascii_space)

lemma lower_ascii_strip: "py_strip (lower_ascii s) = lower_ascii (py_strip s)"
proof -
  have r: "rev (lower_ascii t) = lower_ascii (rev t)" for t
    by (simp add: lower_ascii_def rev_map)
  show ?thesis
    by (simp add: py_strip_def dropWhile_lower_ascii r)
qed

lemma cache_stripped_empty: "cache_stripped empty_state"
  by (simp add: cache_stripped_def empty_state_def)

theorem get_player_stats_first_match_witness:
  "cache_stripped empty_state \<and>
   fst (get_player_stats lower_ascii sample_net 4300 (ascii ''  IVANOV '') (ascii ''2025'') False
          empty_state) = Inr (Some ivanov) \<and>
   fst (get_player_stats lower_ascii sample_net 4300 (ascii ''Smirnov'') (ascii ''2025'') False
          empty_state) = Inr None"
proof -
  have 1: "find (\<lambda>p. lower_ascii (py_strip (name p)) = lower_ascii (py_strip (ascii ''  IVANOV '')))
             [ivanov, petrov, sidorov] = Some ivanov"
    by (simp add: ivanov_def lower_ascii_def py_strip_def py_isspace_def ascii_def)
  have 2: "find (\<lambda>p. lower_ascii (py_strip (name p)) = lower_ascii (py_strip (ascii ''Smirnov'')))
             [ivanov, petrov, sidorov] = None"
    by (simp add: ivanov_def petrov_def sidorov_def lower_ascii_def py_strip_def py_isspace_def
        ascii_def)
  from get_player_stats_first_match[of lower_ascii, OF lower_ascii_strip cache_stripped_empty
        sample_first_call, of "ascii ''  IVANOV ''"]
       get_player_stats_first_match[of lower_ascii, OF lower_ascii_strip cache_stripped_empty
        sample_first_call, of "ascii ''Smirnov''"]
  show ?thesis using cache_stripped_empty by (simp only: 1 2 fst_conv simp_thms)
qed

end
